theory Spec2Isabelle
  imports Main "HOL-Library.AList"
begin

section \<open>Array contexts of grudge: a shallow embedding of \<open>grudge/array_context.py\<close>\<close>

text \<open>
  The module is glue between meshmode's array contexts, pytato's distributed
  partitioner and an MPI communicator.  Everything the module only receives and
  hands on (communicators, command queues, allocators, arrays, bound programs,
  exception objects of the libraries) is a value of one opaque type \<open>'x\<close>: the
  model can compare and pass such a value, and nothing else.
\<close>

subsection \<open>Values, classes, objects\<close>

text \<open>
  A Python float: a mantissa times a power of two, an infinity with its sign
  (\<open>True\<close> for the negative one), or not-a-number.
\<close>

datatype pyfloat =
    FloatFinite int int
  | FloatInf bool
  | FloatNaN

datatype 'x pyval =
    PyNone
  | PyBool bool
  | PyInt int
  | PyFloat pyfloat
  | PyStr string
  | PyObj 'x

text \<open>
  Python's \<open>==\<close> on these values.  Numbers (bool, int, float) compare by
  value across the three types, and NaN is equal to nothing, itself included;
  \<open>None\<close> and strings compare by value; an opaque object compares by identity,
  as \<open>object.__eq__\<close> does.
\<close>

fun float_eq :: "pyfloat \<Rightarrow> pyfloat \<Rightarrow> bool" where
  "float_eq (FloatFinite m1 e1) (FloatFinite m2 e2) =
     (if e1 \<le> e2 then m1 = m2 * 2 ^ nat (e2 - e1)
      else m1 * 2 ^ nat (e1 - e2) = m2)"
| "float_eq (FloatInf a) (FloatInf b) = (a = b)"
| "float_eq _ _ = False"

fun as_number :: "'x pyval \<Rightarrow> pyfloat option" where
  "as_number (PyBool b) = Some (FloatFinite (if b then 1 else 0) 0)"
| "as_number (PyInt n) = Some (FloatFinite n 0)"
| "as_number (PyFloat f) = Some f"
| "as_number _ = None"

definition py_eq :: "'x pyval \<Rightarrow> 'x pyval \<Rightarrow> bool" where
  "py_eq a b =
     (case (as_number a, as_number b) of
        (Some x, Some y) \<Rightarrow> float_eq x y
      | (None, None) \<Rightarrow> a = b
      | _ \<Rightarrow> False)"

text \<open>
  The array context classes that can be instantiated: the five this module
  defines and meshmode's \<open>SingleGridWorkBalancingPytatoArrayContext\<close>, which
  the factory function names.
\<close>

datatype pyclass =
    PyOpenCLArrayContext
  | PytatoPyOpenCLArrayContext
  | MPIPyOpenCLArrayContext
  | MPIBasePytatoPyOpenCLArrayContext
  | MPISingleGridWorkBalancingPytatoArrayContext
  | SingleGridWorkBalancingPytatoArrayContext

fun class_name :: "pyclass \<Rightarrow> string" where
  "class_name PyOpenCLArrayContext = ''PyOpenCLArrayContext''"
| "class_name PytatoPyOpenCLArrayContext = ''PytatoPyOpenCLArrayContext''"
| "class_name MPIPyOpenCLArrayContext = ''MPIPyOpenCLArrayContext''"
| "class_name MPIBasePytatoPyOpenCLArrayContext = ''MPIBasePytatoPyOpenCLArrayContext''"
| "class_name MPISingleGridWorkBalancingPytatoArrayContext =
     ''MPISingleGridWorkBalancingPytatoArrayContext''"
| "class_name SingleGridWorkBalancingPytatoArrayContext =
     ''SingleGridWorkBalancingPytatoArrayContext''"

text \<open>An object is its dynamic class and its attribute dictionary.\<close>

type_synonym 'x attrs = "string \<rightharpoonup> 'x pyval"

record 'x obj =
  cls :: pyclass
  attrs :: "'x attrs"

text \<open>
  The exceptions the module's own code can raise, and \<open>External\<close> for an
  exception object raised inside one of the libraries.  \<open>NoSuchObject\<close> has no
  Python counterpart: it is the result of following a reference that is not in
  the heap, which a Python program cannot hold.
\<close>

datatype 'x error =
    AssertionError
  | AttributeError string
  | KeyError
  | TypeError
  | NoSuchObject
  | External 'x

text \<open>The three user warnings of the module, by their message.\<close>

datatype warning =
    BranchMismatchWarning
      \<comment> \<open>"Your loopy and meshmode branches are mismatched. ..."\<close>
  | NoAllocatorWarning
      \<comment> \<open>"No memory allocator specified, please pass one. ..."\<close>
  | NoDeviceParallelWarning
      \<comment> \<open>"No device-parallel actx available, execution will be slow. ..."\<close>

text \<open>One call of \<open>logger.info\<close> in the factory function, with its four arguments.\<close>

record log_record =
  logged_class :: string
  logged_lazy :: bool
  logged_distributed :: bool
  logged_device_parallel :: bool

subsection \<open>Module state\<close>

text \<open>
  The state the module's code reads and writes: the module global
  \<open>_HAVE_SINGLE_GRID_WORK_BALANCING\<close>, the heap of array context objects
  (a reference is an index into it), the user warnings issued so far and the
  records logged so far.
\<close>

record 'x state =
  HAVE_SINGLE_GRID_WORK_BALANCING :: bool
  heap :: "'x obj list"
  warnings :: "warning list"
  log_records :: "log_record list"

definition warn :: "warning \<Rightarrow> 'x state \<Rightarrow> 'x state" where
  "warn w s = s\<lparr>warnings := warnings s @ [w]\<rparr>"

definition logger_info :: "log_record \<Rightarrow> 'x state \<Rightarrow> 'x state" where
  "logger_info r s = s\<lparr>log_records := log_records s @ [r]\<rparr>"

text \<open>
  What the two guarded imports at the top of the module find: whether meshmode
  has \<open>SingleGridWorkBalancingPytatoArrayContext\<close>, and whether loopy has
  \<open>get_idis_for_kernel\<close>.
\<close>

record import_env =
  meshmode_has_single_grid :: bool
  loopy_has_get_idis :: bool

text \<open>
  Lines 45-67: the module body run at import.  It sets the global and, when
  meshmode has the class and loopy lacks the function, warns.
\<close>

definition module_import :: "import_env \<Rightarrow> 'x state" where
  "module_import env =
     (let s0 = \<lparr>HAVE_SINGLE_GRID_WORK_BALANCING = False, heap = [],
                warnings = [], log_records = []\<rparr>
      in if meshmode_has_single_grid env
         then (if loopy_has_get_idis env
               then s0\<lparr>HAVE_SINGLE_GRID_WORK_BALANCING := True\<rparr>
               else (warn BranchMismatchWarning s0)
                      \<lparr>HAVE_SINGLE_GRID_WORK_BALANCING := False\<rparr>)
         else s0\<lparr>HAVE_SINGLE_GRID_WORK_BALANCING := False\<rparr>)"

subsection \<open>The factory function\<close>

text \<open>
  Lines 363-398.  The local variable \<open>actx_class\<close> is assigned by the
  statements in the order of the source; \<open>assigned_nondistributed\<close> is the
  value the block under \<open># lazy, non-distributed\<close> gives it (nothing when
  \<open>distributed\<close> holds), and the statement under \<open># distributed+lazy\<close>, which
  is not in an \<open>else\<close>, assigns it next in every case.
\<close>

definition get_reasonable_array_context_class ::
    "bool \<Rightarrow> bool \<Rightarrow> 'x state \<Rightarrow> pyclass \<times> 'x state" where
  "get_reasonable_array_context_class lazy distributed s =
     (let have = HAVE_SINGLE_GRID_WORK_BALANCING s;
          (actx_class, s1) =
            (if lazy then
               (let s' = (if \<not> have then warn NoDeviceParallelWarning s else s);
                    assigned_nondistributed =
                      (if \<not> distributed
                       then (if have
                             then Some SingleGridWorkBalancingPytatoArrayContext
                             else Some PytatoPyOpenCLArrayContext)
                       else None);
                    assigned_last =
                      (if have
                       then MPISingleGridWorkBalancingPytatoArrayContext
                       else MPIBasePytatoPyOpenCLArrayContext)
                in (assigned_last, s'))
             else
               (if distributed then (MPIPyOpenCLArrayContext, s)
                else (PyOpenCLArrayContext, s)))
      in (actx_class,
          logger_info \<lparr>logged_class = class_name actx_class,
                       logged_lazy = lazy,
                       logged_distributed = distributed,
                       logged_device_parallel = (have \<or> \<not> lazy)\<rparr> s1))"

subsection \<open>Running code: state, exceptions, library calls\<close>

text \<open>
  A piece of the module's code takes the state and gives back either the
  exception it raised or its value, with the state it left.
\<close>

type_synonym ('a, 'x) run = "'x state \<Rightarrow> ('x error + 'a) \<times> 'x state"

definition returnM :: "'a \<Rightarrow> ('a, 'x) run" where
  "returnM a s = (Inr a, s)"

definition raiseM :: "'x error \<Rightarrow> ('a, 'x) run" where
  "raiseM e s = (Inl e, s)"

definition bindM :: "('a, 'x) run \<Rightarrow> ('a \<Rightarrow> ('b, 'x) run) \<Rightarrow> ('b, 'x) run" where
  "bindM m f s = (case m s of (Inl e, s') \<Rightarrow> (Inl e, s') | (Inr a, s') \<Rightarrow> f a s')"

text \<open>
  A call into a library gives a value or raises the library's exception; it
  sees the arguments it is passed and not the module's state.
\<close>

definition ext_call :: "'x + 'a \<Rightarrow> ('a, 'x) run" where
  "ext_call r s = (case r of Inl x \<Rightarrow> (Inl (External x), s) | Inr a \<Rightarrow> (Inr a, s))"

text \<open>The warnings issued between two states.\<close>

definition issued :: "'x state \<Rightarrow> 'x state \<Rightarrow> warning list" where
  "issued s s' = drop (length (warnings s)) (warnings s')"

subsection \<open>The heap\<close>

definition allocate :: "'x obj \<Rightarrow> (nat, 'x) run" where
  "allocate ob s = (Inr (length (heap s)), s\<lparr>heap := heap s @ [ob]\<rparr>)"

definition deref :: "nat \<Rightarrow> ('x obj, 'x) run" where
  "deref r s = (if r < length (heap s) then (Inr (heap s ! r), s)
                else (Inl NoSuchObject, s))"

definition getattr :: "nat \<Rightarrow> string \<Rightarrow> ('x pyval, 'x) run" where
  "getattr r name =
     bindM (deref r) (\<lambda>ob.
       case attrs ob name of
         None \<Rightarrow> raiseM (AttributeError name)
       | Some v \<Rightarrow> returnM v)"

definition setattr :: "nat \<Rightarrow> string \<Rightarrow> 'x pyval \<Rightarrow> (unit, 'x) run" where
  "setattr r name v s =
     (if r < length (heap s)
      then (Inr (),
            s\<lparr>heap := (heap s)[r := (heap s ! r)
                         \<lparr>attrs := (attrs (heap s ! r))(name \<mapsto> v)\<rparr>]\<rparr>)
      else (Inl NoSuchObject, s))"

text \<open>Setting an attribute of the object a constructor is initialising.\<close>

definition set_self :: "string \<Rightarrow> 'x pyval \<Rightarrow> 'x obj \<Rightarrow> 'x obj" where
  "set_self name v self = self\<lparr>attrs := (attrs self)(name \<mapsto> v)\<rparr>"

subsection \<open>The base classes of meshmode\<close>

text \<open>
  The constructors of the three meshmode classes this module inherits from are
  not part of the repository: they are parameters.  Each takes the arguments
  the module passes it and the attribute dictionary of the object under
  construction, and raises or gives the dictionary it leaves.
\<close>

record 'x meshmode =
  PyOpenCLArrayContextBase_init ::
    "'x pyval \<Rightarrow> 'x pyval \<Rightarrow> 'x pyval \<Rightarrow> 'x pyval \<Rightarrow> 'x attrs \<Rightarrow> 'x + 'x attrs"
  PytatoPyOpenCLArrayContextBase_init ::
    "'x pyval \<Rightarrow> 'x pyval \<Rightarrow> 'x attrs \<Rightarrow> 'x + 'x attrs"
  SingleGridWorkBalancingPytatoArrayContext_init ::
    "'x pyval \<Rightarrow> 'x pyval \<Rightarrow> 'x attrs \<Rightarrow> 'x + 'x attrs"

definition base_init :: "'x obj \<Rightarrow> 'x + 'x attrs \<Rightarrow> ('x obj, 'x) run" where
  "base_init self r = bindM (ext_call r) (\<lambda>a. returnM (self\<lparr>attrs := a\<rparr>))"

subsection \<open>Constructors\<close>

text \<open>
  An argument the caller omits has its default when the body runs: \<open>PyNone\<close>
  for \<open>allocator\<close> and \<open>wait_event_queue_length\<close>, \<open>PyBool False\<close> for
  \<open>force_device_scalars\<close>.
\<close>

text \<open>Lines 91-103.\<close>

definition PyOpenCLArrayContext_init ::
    "'x meshmode \<Rightarrow> 'x obj \<Rightarrow> 'x pyval \<Rightarrow> 'x pyval \<Rightarrow> 'x pyval \<Rightarrow> 'x pyval
      \<Rightarrow> ('x obj, 'x) run" where
  "PyOpenCLArrayContext_init mm self queue allocator wait_event_queue_length
       force_device_scalars s =
     (let s1 = (if allocator = PyNone then warn NoAllocatorWarning s else s)
      in base_init self
           (PyOpenCLArrayContextBase_init mm queue allocator
              wait_event_queue_length force_device_scalars (attrs self)) s1)"

text \<open>Lines 115-121.\<close>

definition PytatoPyOpenCLArrayContext_init ::
    "'x meshmode \<Rightarrow> 'x obj \<Rightarrow> 'x pyval \<Rightarrow> 'x pyval \<Rightarrow> ('x obj, 'x) run" where
  "PytatoPyOpenCLArrayContext_init mm self queue allocator s =
     (let s1 = (if allocator = PyNone then warn NoAllocatorWarning s else s)
      in base_init self
           (PytatoPyOpenCLArrayContextBase_init mm queue allocator (attrs self)) s1)"

text \<open>
  \<open>super().__init__\<close> inside \<open>MPIPytatoArrayContextBase.__init__\<close>: the next
  \<open>__init__\<close> in the method resolution order of the object's class.  For
  \<open>MPIBasePytatoPyOpenCLArrayContext\<close> that is this module's
  \<open>PytatoPyOpenCLArrayContext.__init__\<close>, for
  \<open>MPISingleGridWorkBalancingPytatoArrayContext\<close> meshmode's; with no array
  context class behind it, it is \<open>object.__init__\<close>, which takes no argument.
\<close>

definition MPIPytatoArrayContextBase_super_init ::
    "'x meshmode \<Rightarrow> 'x obj \<Rightarrow> 'x pyval \<Rightarrow> 'x pyval \<Rightarrow> ('x obj, 'x) run" where
  "MPIPytatoArrayContextBase_super_init mm self queue allocator =
     (case cls self of
        MPIBasePytatoPyOpenCLArrayContext \<Rightarrow>
          PytatoPyOpenCLArrayContext_init mm self queue allocator
      | MPISingleGridWorkBalancingPytatoArrayContext \<Rightarrow>
          base_init self
            (SingleGridWorkBalancingPytatoArrayContext_init mm queue allocator
               (attrs self))
      | _ \<Rightarrow> raiseM TypeError)"

text \<open>Lines 245-257.\<close>

definition MPIPytatoArrayContextBase_init ::
    "'x meshmode \<Rightarrow> 'x obj \<Rightarrow> 'x pyval \<Rightarrow> 'x pyval \<Rightarrow> 'x pyval \<Rightarrow> 'x pyval
      \<Rightarrow> ('x obj, 'x) run" where
  "MPIPytatoArrayContextBase_init mm self mpi_communicator queue mpi_base_tag
       allocator s =
     (let s1 = (if allocator = PyNone then warn NoAllocatorWarning s else s)
      in bindM (MPIPytatoArrayContextBase_super_init mm self queue allocator)
           (\<lambda>self. returnM
              (set_self ''mpi_base_tag'' mpi_base_tag
                 (set_self ''mpi_communicator'' mpi_communicator self))) s1)"

text \<open>Lines 283-297.\<close>

definition MPIPyOpenCLArrayContext_init ::
    "'x meshmode \<Rightarrow> 'x obj \<Rightarrow> 'x pyval \<Rightarrow> 'x pyval \<Rightarrow> 'x pyval \<Rightarrow> 'x pyval
      \<Rightarrow> 'x pyval \<Rightarrow> ('x obj, 'x) run" where
  "MPIPyOpenCLArrayContext_init mm self mpi_communicator queue allocator
       wait_event_queue_length force_device_scalars =
     bindM (PyOpenCLArrayContext_init mm self queue allocator
              wait_event_queue_length force_device_scalars)
       (\<lambda>self. returnM (set_self ''mpi_communicator'' mpi_communicator self))"

text \<open>
  Calling a class object.  The arguments are passed by name; a class uses the
  ones in its constructor's signature.
\<close>

record 'x ctor_args =
  arg_mpi_communicator :: "'x pyval"
  arg_queue :: "'x pyval"
  arg_allocator :: "'x pyval"
  arg_mpi_base_tag :: "'x pyval"
  arg_wait_event_queue_length :: "'x pyval"
  arg_force_device_scalars :: "'x pyval"

definition new_object :: "pyclass \<Rightarrow> 'x obj" where
  "new_object c = \<lparr>cls = c, attrs = Map.empty\<rparr>"

definition run_init :: "'x meshmode \<Rightarrow> pyclass \<Rightarrow> 'x ctor_args \<Rightarrow> ('x obj, 'x) run" where
  "run_init mm c a =
     (case c of
        PyOpenCLArrayContext \<Rightarrow>
          PyOpenCLArrayContext_init mm (new_object c) (arg_queue a) (arg_allocator a)
            (arg_wait_event_queue_length a) (arg_force_device_scalars a)
      | PytatoPyOpenCLArrayContext \<Rightarrow>
          PytatoPyOpenCLArrayContext_init mm (new_object c) (arg_queue a)
            (arg_allocator a)
      | MPIPyOpenCLArrayContext \<Rightarrow>
          MPIPyOpenCLArrayContext_init mm (new_object c) (arg_mpi_communicator a)
            (arg_queue a) (arg_allocator a) (arg_wait_event_queue_length a)
            (arg_force_device_scalars a)
      | MPIBasePytatoPyOpenCLArrayContext \<Rightarrow>
          MPIPytatoArrayContextBase_init mm (new_object c) (arg_mpi_communicator a)
            (arg_queue a) (arg_mpi_base_tag a) (arg_allocator a)
      | MPISingleGridWorkBalancingPytatoArrayContext \<Rightarrow>
          MPIPytatoArrayContextBase_init mm (new_object c) (arg_mpi_communicator a)
            (arg_queue a) (arg_mpi_base_tag a) (arg_allocator a)
      | SingleGridWorkBalancingPytatoArrayContext \<Rightarrow>
          base_init (new_object c)
            (SingleGridWorkBalancingPytatoArrayContext_init mm (arg_queue a)
               (arg_allocator a) Map.empty))"

definition construct :: "'x meshmode \<Rightarrow> pyclass \<Rightarrow> 'x ctor_args \<Rightarrow> (nat, 'x) run" where
  "construct mm c a = bindM (run_init mm c a) allocate"

text \<open>
  The meshmode constructor that constructing an object of a class reaches, on
  the arguments it is reached with.
\<close>

definition meshmode_init_reached :: "'x meshmode \<Rightarrow> pyclass \<Rightarrow> 'x ctor_args \<Rightarrow> 'x + 'x attrs" where
  "meshmode_init_reached mm c a =
     (if c = PyOpenCLArrayContext \<or> c = MPIPyOpenCLArrayContext
      then PyOpenCLArrayContextBase_init mm (arg_queue a) (arg_allocator a)
             (arg_wait_event_queue_length a) (arg_force_device_scalars a) Map.empty
      else if c = PytatoPyOpenCLArrayContext \<or> c = MPIBasePytatoPyOpenCLArrayContext
      then PytatoPyOpenCLArrayContextBase_init mm (arg_queue a) (arg_allocator a)
             Map.empty
      else SingleGridWorkBalancingPytatoArrayContext_init mm (arg_queue a)
             (arg_allocator a) Map.empty)"

subsection \<open>Cloning\<close>

text \<open>Lines 264-269.\<close>

definition MPIPytatoArrayContextBase_clone :: "'x meshmode \<Rightarrow> nat \<Rightarrow> (nat, 'x) run" where
  "MPIPytatoArrayContextBase_clone mm self =
     bindM (deref self) (\<lambda>ob.
     bindM (getattr self ''mpi_communicator'') (\<lambda>comm.
     bindM (getattr self ''queue'') (\<lambda>queue.
     bindM (getattr self ''mpi_base_tag'') (\<lambda>tag.
     bindM (getattr self ''allocator'') (\<lambda>allocator.
       construct mm (cls ob)
         \<lparr>arg_mpi_communicator = comm, arg_queue = queue,
          arg_allocator = allocator, arg_mpi_base_tag = tag,
          arg_wait_event_queue_length = PyNone,
          arg_force_device_scalars = PyBool False\<rparr>)))))"

text \<open>Lines 299-305.\<close>

definition MPIPyOpenCLArrayContext_clone :: "'x meshmode \<Rightarrow> nat \<Rightarrow> (nat, 'x) run" where
  "MPIPyOpenCLArrayContext_clone mm self =
     bindM (deref self) (\<lambda>ob.
     bindM (getattr self ''mpi_communicator'') (\<lambda>comm.
     bindM (getattr self ''queue'') (\<lambda>queue.
     bindM (getattr self ''allocator'') (\<lambda>allocator.
     bindM (getattr self ''_wait_event_queue_length'') (\<lambda>weql.
     bindM (getattr self ''_force_device_scalars'') (\<lambda>fds.
       construct mm (cls ob)
         \<lparr>arg_mpi_communicator = comm, arg_queue = queue,
          arg_allocator = allocator, arg_mpi_base_tag = PyNone,
          arg_wait_event_queue_length = weql,
          arg_force_device_scalars = fds\<rparr>))))))"

text \<open>
  A result \<open>res\<close> of cloning the object at \<open>r\<close> in state \<open>s\<close> is a fresh copy
  when it is a reference to a new object, added to the heap behind the objects
  that were there, which are as they were, and the new object has the class of
  the original and the same value as the original under each of the given
  attribute names.
\<close>

definition is_fresh_copy ::
    "'x state \<Rightarrow> nat \<Rightarrow> ('x error + nat) \<times> 'x state \<Rightarrow> string list \<Rightarrow> bool" where
  "is_fresh_copy s r res names =
     (fst res = Inr (length (heap s))
      \<and> length (heap (snd res)) = Suc (length (heap s))
      \<and> take (length (heap s)) (heap (snd res)) = heap s
      \<and> cls (heap (snd res) ! length (heap s)) = cls (heap s ! r)
      \<and> (\<forall>name \<in> set names.
            attrs (heap (snd res) ! length (heap s)) name = attrs (heap s ! r) name))"

subsection \<open>Array containers\<close>

text \<open>
  An array container is an array or a keyed collection of containers; a leaf
  is reached by the tuple of keys on the way to it.
\<close>

datatype ('k, 'x) container =
    Leaf 'x
  | Container "('k \<times> ('k, 'x) container) list"

text \<open>
  The documented behaviour of arraycontext's \<open>rec_keyed_map_array_container\<close>:
  the container is rebuilt with the same keys, each leaf replaced by what the
  function gives for the leaf's key tuple and the leaf, the first exception
  ending the traversal.  The module's code calls the library's function; this
  definition states what the theorems below assume of it.
\<close>

fun keyed_map ::
      "('k list \<Rightarrow> 'x \<Rightarrow> 'e + 'x) \<Rightarrow> 'k list \<Rightarrow> ('k, 'x) container
        \<Rightarrow> 'e + ('k, 'x) container"
  and keyed_map_entries ::
      "('k list \<Rightarrow> 'x \<Rightarrow> 'e + 'x) \<Rightarrow> 'k list \<Rightarrow> ('k \<times> ('k, 'x) container) list
        \<Rightarrow> 'e + ('k \<times> ('k, 'x) container) list" where
  "keyed_map f keys (Leaf a) =
     (case f keys a of Inl e \<Rightarrow> Inl e | Inr v \<Rightarrow> Inr (Leaf v))"
| "keyed_map f keys (Container entries) =
     (case keyed_map_entries f keys entries of
        Inl e \<Rightarrow> Inl e
      | Inr entries' \<Rightarrow> Inr (Container entries'))"
| "keyed_map_entries f keys [] = Inr []"
| "keyed_map_entries f keys ((k, c) # rest) =
     (case keyed_map f (keys @ [k]) c of
        Inl e \<Rightarrow> Inl e
      | Inr c' \<Rightarrow>
          (case keyed_map_entries f keys rest of
             Inl e \<Rightarrow> Inl e
           | Inr rest' \<Rightarrow> Inr ((k, c') # rest')))"

text \<open>The leaf under a tuple of keys (under the first entry of a key, if it repeats).\<close>

fun leaf_at :: "('k, 'x) container \<Rightarrow> 'k list \<Rightarrow> 'x option"
  and leaf_at_entries :: "('k \<times> ('k, 'x) container) list \<Rightarrow> 'k \<Rightarrow> 'k list \<Rightarrow> 'x option" where
  "leaf_at (Leaf a) [] = Some a"
| "leaf_at (Leaf a) (k # ks) = None"
| "leaf_at (Container entries) [] = None"
| "leaf_at (Container entries) (k # ks) = leaf_at_entries entries k ks"
| "leaf_at_entries [] k ks = None"
| "leaf_at_entries ((k', c) # rest) k ks =
     (if k' = k then leaf_at c ks else leaf_at_entries rest k ks)"

text \<open>The structure and keys of a container: the container with its arrays forgotten.\<close>

definition structure_of :: "('k, 'x) container \<Rightarrow> ('k, unit) container" where
  "structure_of c = map_container id (\<lambda>_. ()) c"

subsection \<open>The libraries behind compilation and execution\<close>

text \<open>
  A part of a distributed partition, and the partition: the fields the module
  reads, and the communication tags of the partition's sends and receives,
  which the module hands on unread (symbolic before
  \<open>number_distributed_tags\<close>, integers after).  A dictionary whose order the
  code iterates in is an association list.
\<close>

record 'x part =
  pid :: "'x pyval"
  output_names :: "string list"

record 'x distributed_partition =
  parts :: "('x pyval \<times> 'x part) list"
  var_name_to_result :: "string \<rightharpoonup> 'x"
  comm_tags :: "'x pyval list"

text \<open>
  The functions of pytato and arraycontext the module calls, as parameters:
  each gets the arguments the source passes it.  \<open>thaw\<close> is a method of the
  array context and gets the context object.  A \<open>DictOfNamedArrays\<close> is the
  dictionary it is built from.
\<close>

record ('k, 'x) pytato =
  deduplicate_data_wrappers :: "'x \<Rightarrow> 'x + 'x"
  find_distributed_partition :: "'x \<Rightarrow> 'x + 'x distributed_partition"
  number_distributed_tags ::
    "'x pyval \<Rightarrow> 'x distributed_partition \<Rightarrow> 'x pyval
      \<Rightarrow> 'x + ('x distributed_partition \<times> 'x pyval)"
  dag_to_transformed_loopy_prg :: "(string \<times> 'x) list \<Rightarrow> 'x + ('x \<times> 'x \<times> 'x)"
  args_to_cl_buffers :: "'x obj \<Rightarrow> 'x \<Rightarrow> 'x \<Rightarrow> 'x + 'x"
  execute_distributed_partition ::
    "'x distributed_partition \<Rightarrow> ('x pyval \<times> 'x) list \<Rightarrow> 'x pyval \<Rightarrow> 'x pyval
      \<Rightarrow> 'x pyval \<Rightarrow> 'x \<Rightarrow> 'x + (string \<rightharpoonup> 'x)"
  thaw :: "'x obj \<Rightarrow> 'x \<Rightarrow> 'x + 'x"
  rec_keyed_map_array_container ::
    "('k list \<Rightarrow> 'x \<Rightarrow> 'x error + 'x) \<Rightarrow> ('k, 'x) container
      \<Rightarrow> 'x error + ('k, 'x) container"

subsection \<open>Compiling on a distributed context\<close>

text \<open>Lines 181-216: the frozen dataclass; \<open>actx\<close> is a reference into the heap.\<close>

record ('k, 'x) DistributedCompiledFunction =
  actx :: nat
  distributed_partition :: "'x distributed_partition"
  part_id_to_prg :: "('x pyval \<times> 'x) list"
  input_id_to_name_in_program :: 'x
  output_id_to_name_in_program :: "'k list \<rightharpoonup> string"
  output_template :: "('k, 'x) container"

text \<open>
  The function caller \<open>compile\<close> returns (line 262): the context it was made
  on and the function to trace.
\<close>

record 'x DistributedLazilyCompilingFunctionCaller =
  caller_actx :: nat
  caller_f :: 'x

definition MPIPytatoArrayContextBase_compile ::
    "nat \<Rightarrow> 'x \<Rightarrow> 'x DistributedLazilyCompilingFunctionCaller" where
  "MPIPytatoArrayContextBase_compile self f = \<lparr>caller_actx = self, caller_f = f\<rparr>"

text \<open>
  Lines 166-169: the dictionary comprehension over \<open>part.output_names\<close>, a
  missing name raising \<open>KeyError\<close>.
\<close>

fun named_results ::
    "(string \<rightharpoonup> 'x) \<Rightarrow> string list \<Rightarrow> (string \<times> 'x) list \<Rightarrow> 'x error + (string \<times> 'x) list" where
  "named_results v2r [] d = Inr d"
| "named_results v2r (var_name # rest) d =
     (case v2r var_name of
        None \<Rightarrow> Inl KeyError
      | Some r \<Rightarrow> named_results v2r rest (AList.update var_name r d))"

text \<open>
  Lines 162-170: the loop over the parts, filling \<open>part_id_to_prg\<close> (here
  \<open>prgs\<close>).
\<close>

fun compile_parts ::
    "('k, 'x) pytato \<Rightarrow> (string \<rightharpoonup> 'x) \<Rightarrow> 'x part list \<Rightarrow> ('x pyval \<times> 'x) list
      \<Rightarrow> 'x error + ('x pyval \<times> 'x) list" where
  "compile_parts pt v2r [] prgs = Inr prgs"
| "compile_parts pt v2r (p # rest) prgs =
     (case named_results v2r (output_names p) [] of
        Inl e \<Rightarrow> Inl e
      | Inr d \<Rightarrow>
          (case dag_to_transformed_loopy_prg pt d of
             Inl x \<Rightarrow> Inl (External x)
           | Inr (prg, _, _) \<Rightarrow>
               compile_parts pt v2r rest (AList.update (pid p) prg prgs)))"

text \<open>
  Lines 133-178.  The \<open>assert\<close> of line 155 compares the saved tag and the
  context's tag with Python's \<open>==\<close>.
\<close>

definition dag_to_compiled_func ::
    "('k, 'x) pytato \<Rightarrow> 'x DistributedLazilyCompilingFunctionCaller \<Rightarrow> 'x \<Rightarrow> 'x
      \<Rightarrow> ('k list \<rightharpoonup> string) \<Rightarrow> ('k, 'x) container
      \<Rightarrow> (('k, 'x) DistributedCompiledFunction, 'x) run" where
  "dag_to_compiled_func pt self dict_of_named_arrays input_id_to_name
       output_id_to_name template =
     bindM (ext_call (deduplicate_data_wrappers pt dict_of_named_arrays))
       (\<lambda>dict_of_named_arrays.
     bindM (ext_call (find_distributed_partition pt dict_of_named_arrays))
       (\<lambda>partition.
     bindM (getattr (caller_actx self) ''mpi_base_tag'') (\<lambda>prev_mpi_base_tag.
     bindM (getattr (caller_actx self) ''mpi_communicator'') (\<lambda>comm.
     bindM (ext_call (number_distributed_tags pt comm partition prev_mpi_base_tag))
       (\<lambda>(partition, new_mpi_base_tag).
     bindM (getattr (caller_actx self) ''mpi_base_tag'') (\<lambda>current.
     bindM (if py_eq prev_mpi_base_tag current then returnM ()
            else raiseM AssertionError) (\<lambda>_.
     bindM (setattr (caller_actx self) ''mpi_base_tag'' new_mpi_base_tag) (\<lambda>_.
     bindM (\<lambda>s. (compile_parts pt (var_name_to_result partition)
                    (map snd (parts partition)) [], s)) (\<lambda>prgs.
     returnM
       \<lparr>actx = caller_actx self,
        distributed_partition = partition,
        part_id_to_prg = prgs,
        input_id_to_name_in_program = input_id_to_name,
        output_id_to_name_in_program = output_id_to_name,
        output_template = template\<rparr>)))))))))"

subsection \<open>Calling a compiled distributed function\<close>

text \<open>Lines 236-237, the local function of \<open>__call__\<close>, in the state it runs in.\<close>

definition to_output_template ::
    "('k, 'x) pytato \<Rightarrow> ('k, 'x) DistributedCompiledFunction \<Rightarrow> 'x state
      \<Rightarrow> (string \<rightharpoonup> 'x) \<Rightarrow> 'k list \<Rightarrow> 'x \<Rightarrow> 'x error + 'x" where
  "to_output_template pt self s out_dict keys ignored =
     (case fst (deref (actx self) s) of
        Inl e \<Rightarrow> Inl e
      | Inr ob \<Rightarrow>
          (case output_id_to_name_in_program self keys of
             None \<Rightarrow> Inl KeyError
           | Some name \<Rightarrow>
               (case out_dict name of
                  None \<Rightarrow> Inl KeyError
                | Some ary \<Rightarrow>
                    (case thaw pt ob ary of
                       Inl x \<Rightarrow> Inl (External x)
                     | Inr v \<Rightarrow> Inr v))))"

text \<open>Lines 218-241.\<close>

definition DistributedCompiledFunction_call ::
    "('k, 'x) pytato \<Rightarrow> ('k, 'x) DistributedCompiledFunction \<Rightarrow> 'x
      \<Rightarrow> (('k, 'x) container, 'x) run" where
  "DistributedCompiledFunction_call pt self arg_id_to_arg =
     bindM (deref (actx self)) (\<lambda>ob.
     bindM (ext_call (args_to_cl_buffers pt ob (input_id_to_name_in_program self)
                        arg_id_to_arg)) (\<lambda>input_args_for_prg.
     bindM (getattr (actx self) ''queue'') (\<lambda>queue.
     bindM (getattr (actx self) ''mpi_communicator'') (\<lambda>comm.
     bindM (getattr (actx self) ''allocator'') (\<lambda>allocator.
     bindM (ext_call (execute_distributed_partition pt (distributed_partition self)
                        (part_id_to_prg self) queue comm allocator
                        input_args_for_prg)) (\<lambda>out_dict.
     (\<lambda>s. (rec_keyed_map_array_container pt
               (to_output_template pt self s out_dict) (output_template self),
             s))))))))"

text \<open>The classes that take an MPI communicator.\<close>

fun is_mpi_class :: "pyclass \<Rightarrow> bool" where
  "is_mpi_class MPIPyOpenCLArrayContext = True"
| "is_mpi_class MPIBasePytatoPyOpenCLArrayContext = True"
| "is_mpi_class MPISingleGridWorkBalancingPytatoArrayContext = True"
| "is_mpi_class _ = False"

subsection \<open>Concrete inputs\<close>

text \<open>
  A stand-in for meshmode whose constructors keep the queue and the allocator
  as attributes (the eager one also the two scalars, with its default queue
  length of 10), and arguments and an import environment to run the code on.
\<close>

definition storing_meshmode :: "nat meshmode" where
  "storing_meshmode =
     \<lparr>PyOpenCLArrayContextBase_init = (\<lambda>q a w f at.
         Inr (at(''queue'' \<mapsto> q, ''allocator'' \<mapsto> a,
                 ''_wait_event_queue_length'' \<mapsto> (if w = PyNone then PyInt 10 else w),
                 ''_force_device_scalars'' \<mapsto> f))),
       PytatoPyOpenCLArrayContextBase_init = (\<lambda>q a at.
         Inr (at(''queue'' \<mapsto> q, ''allocator'' \<mapsto> a))),
       SingleGridWorkBalancingPytatoArrayContext_init = (\<lambda>q a at.
         Inr (at(''queue'' \<mapsto> q, ''allocator'' \<mapsto> a)))\<rparr>"

definition example_args :: "nat pyval \<Rightarrow> nat ctor_args" where
  "example_args allocator =
     \<lparr>arg_mpi_communicator = PyObj 11, arg_queue = PyObj 12,
      arg_allocator = allocator, arg_mpi_base_tag = PyInt 7,
      arg_wait_event_queue_length = PyNone,
      arg_force_device_scalars = PyBool False\<rparr>"

definition mismatched_env :: import_env where
  "mismatched_env = \<lparr>meshmode_has_single_grid = True, loopy_has_get_idis = False\<rparr>"

text \<open>
  Stand-ins for pytato and arraycontext: one part with two outputs and one
  symbolic communication tag, tags numbered upwards from an integer base tag
  (a NaN base tag gives NaN tags and a NaN new base tag), execution that
  raises unless it is given queue 12, communicator 11 and allocator 13,
  \<open>thaw\<close> adding 100, and the keyed traversal as documented.  Then an MPI
  pytato context built by the module's constructor, an output template and
  its names.
\<close>

definition example_pytato :: "(string, nat) pytato" where
  "example_pytato =
     \<lparr>deduplicate_data_wrappers = (\<lambda>d. Inr d),
      find_distributed_partition = (\<lambda>d.
        Inr \<lparr>parts = [(PyInt 0, \<lparr>pid = PyInt 0, output_names = [''out_u'', ''out_w'']\<rparr>)],
             var_name_to_result = [''out_u'' \<mapsto> d, ''out_w'' \<mapsto> d + 1],
             comm_tags = [PyStr ''halo'']\<rparr>),
      number_distributed_tags = (\<lambda>comm p tag.
        case tag of
          PyInt n \<Rightarrow>
            Inr (p\<lparr>comm_tags := map (\<lambda>k. PyInt (n + int k))
                                     [0 ..< length (comm_tags p)]\<rparr>,
                 PyInt (n + int (length (comm_tags p))))
        | PyFloat f \<Rightarrow>
            if f = FloatNaN
            then Inr (p\<lparr>comm_tags := map (\<lambda>k. PyFloat FloatNaN) (comm_tags p)\<rparr>,
                      PyFloat FloatNaN)
            else Inl 0
        | _ \<Rightarrow> Inl 0),
      dag_to_transformed_loopy_prg = (\<lambda>d. Inr (length d, 0, 0)),
      args_to_cl_buffers = (\<lambda>ob names args. Inr args),
      execute_distributed_partition = (\<lambda>p prgs queue comm allocator inp.
        if queue = PyObj 12 \<and> comm = PyObj 11 \<and> allocator = PyObj 13
        then Inr [''out_u'' \<mapsto> inp, ''out_w'' \<mapsto> inp + 1]
        else Inl 0),
      thaw = (\<lambda>ob ary. Inr (ary + 100)),
      rec_keyed_map_array_container = (\<lambda>f. keyed_map f [])\<rparr>"

definition example_context :: "nat state" where
  "example_context =
     snd (construct storing_meshmode MPIBasePytatoPyOpenCLArrayContext
            (example_args (PyObj 13)) (module_import mismatched_env))"

definition example_template :: "(string, nat) container" where
  "example_template = Container [(''u'', Leaf 0), (''v'', Container [(''w'', Leaf 0)])]"

definition example_output_names :: "string list \<rightharpoonup> string" where
  "example_output_names = [[''u''] \<mapsto> ''out_u'', [''v'', ''w''] \<mapsto> ''out_w'']"

text \<open>
  The compiled function and the state the first compilation on the example
  context gives, and an eager MPI context built without an allocator.
\<close>

definition example_compiled :: "(string, nat) DistributedCompiledFunction" where
  "example_compiled =
     \<lparr>actx = 0,
      distributed_partition =
        \<lparr>parts = [(PyInt 0, \<lparr>pid = PyInt 0,
                                output_names = [''out_u'', ''out_w'']\<rparr>)],
         var_name_to_result = [''out_u'' \<mapsto> 40, ''out_w'' \<mapsto> 41],
         comm_tags = [PyInt 7]\<rparr>,
      part_id_to_prg = [(PyInt 0, 2)],
      input_id_to_name_in_program = 41,
      output_id_to_name_in_program = example_output_names,
      output_template = example_template\<rparr>"

definition example_compiled_context :: "nat state" where
  "example_compiled_context = snd (setattr 0 ''mpi_base_tag'' (PyInt 8) example_context)"


definition example_eager_context :: "nat state" where
  "example_eager_context =
     snd (construct storing_meshmode MPIPyOpenCLArrayContext
            (example_args PyNone) (module_import mismatched_env))"

section \<open>Properties\<close>

subsection \<open>The factory function\<close>

text \<open>
  C1.  The claim: with \<open>lazy=True\<close> and \<open>distributed=False\<close> the factory returns
  a non-MPI lazy class.  The code does not: the assignment under
  \<open># distributed+lazy\<close> runs after the one under \<open># lazy, non-distributed\<close> and
  overwrites it, so in every module state the call returns an MPI class, the
  same one as with \<open>distributed=True\<close>.
\<close>

theorem get_reasonable_lazy_nondistributed_returns_mpi_class:
  "fst (get_reasonable_array_context_class True False s) =
     (if HAVE_SINGLE_GRID_WORK_BALANCING s
      then MPISingleGridWorkBalancingPytatoArrayContext
      else MPIBasePytatoPyOpenCLArrayContext)
   \<and> is_mpi_class (fst (get_reasonable_array_context_class True False s))
   \<and> fst (get_reasonable_array_context_class True False s) =
     fst (get_reasonable_array_context_class True True s)"
  by (simp add: get_reasonable_array_context_class_def Let_def)

text \<open>
  C2.  In the eager case the factory returns \<open>MPIPyOpenCLArrayContext\<close> when
  \<open>distributed\<close> and \<open>PyOpenCLArrayContext\<close> otherwise, in every module state.
\<close>

theorem get_reasonable_eager:
  "fst (get_reasonable_array_context_class False True s) = MPIPyOpenCLArrayContext
   \<and> fst (get_reasonable_array_context_class False False s) = PyOpenCLArrayContext"
  by (simp add: get_reasonable_array_context_class_def Let_def)

subsection \<open>Constructors\<close>

lemmas run_defs = returnM_def raiseM_def bindM_def ext_call_def base_init_def
  allocate_def warn_def issued_def set_self_def new_object_def

lemma PyOpenCL_init_eq:
  "PyOpenCLArrayContext_init mm self q a w f s =
     ((case PyOpenCLArrayContextBase_init mm q a w f (attrs self) of
         Inl x \<Rightarrow> Inl (External x) | Inr at \<Rightarrow> Inr (self\<lparr>attrs := at\<rparr>)),
      if a = PyNone then warn NoAllocatorWarning s else s)"
  by (simp add: PyOpenCLArrayContext_init_def run_defs Let_def split: sum.splits)

lemma Pytato_init_eq:
  "PytatoPyOpenCLArrayContext_init mm self q a s =
     ((case PytatoPyOpenCLArrayContextBase_init mm q a (attrs self) of
         Inl x \<Rightarrow> Inl (External x) | Inr at \<Rightarrow> Inr (self\<lparr>attrs := at\<rparr>)),
      if a = PyNone then warn NoAllocatorWarning s else s)"
  by (simp add: PytatoPyOpenCLArrayContext_init_def run_defs Let_def split: sum.splits)

lemma run_init_eq:
  "run_init mm c a s =
    ((case meshmode_init_reached mm c a of
        Inl x \<Rightarrow> Inl (External x)
      | Inr at \<Rightarrow> Inr (if c = MPIPyOpenCLArrayContext
                       then \<lparr>cls = c, attrs = at(''mpi_communicator'' \<mapsto> arg_mpi_communicator a)\<rparr>
                       else if c = MPIBasePytatoPyOpenCLArrayContext \<or> c = MPISingleGridWorkBalancingPytatoArrayContext
                       then \<lparr>cls = c, attrs = at(''mpi_communicator'' \<mapsto> arg_mpi_communicator a,
                                 ''mpi_base_tag'' \<mapsto> arg_mpi_base_tag a)\<rparr>
                       else \<lparr>cls = c, attrs = at\<rparr>)),
     s\<lparr>warnings := warnings s @
         (if arg_allocator a = PyNone
          then (if c = SingleGridWorkBalancingPytatoArrayContext then []
                else if c = MPIBasePytatoPyOpenCLArrayContext
                then [NoAllocatorWarning, NoAllocatorWarning]
                else [NoAllocatorWarning])
          else [])\<rparr>)"
  by (cases c)
     (simp_all add: run_init_def meshmode_init_reached_def PyOpenCL_init_eq Pytato_init_eq
        MPIPyOpenCLArrayContext_init_def MPIPytatoArrayContextBase_init_def
        MPIPytatoArrayContextBase_super_init_def
        run_defs Let_def split: sum.splits)

lemma construct_eq:
  "construct mm c a s =
     (case fst (run_init mm c a s) of
        Inl e \<Rightarrow> (Inl e, snd (run_init mm c a s))
      | Inr ob \<Rightarrow> (Inr (length (heap s)),
                   (snd (run_init mm c a s))\<lparr>heap := heap s @ [ob]\<rparr>))"
  by (simp add: construct_def bindM_def allocate_def run_init_eq split: sum.splits)

lemma construct_issued:
  "issued s (snd (construct mm c a s)) =
     (if arg_allocator a = PyNone
      then (if c = SingleGridWorkBalancingPytatoArrayContext then []
            else if c = MPIBasePytatoPyOpenCLArrayContext
            then [NoAllocatorWarning, NoAllocatorWarning]
            else [NoAllocatorWarning])
      else [])"
  by (simp add: construct_eq run_init_eq issued_def split: sum.splits)

lemma construct_succeeds_iff:
  "(\<exists>r. fst (construct mm c a s) = Inr r) = (\<exists>at. meshmode_init_reached mm c a = Inr at)"
  by (simp add: construct_eq run_init_eq split: sum.splits)

lemma get_reasonable_issued:
  "issued s (snd (get_reasonable_array_context_class lazy distributed s)) =
     (if lazy \<and> \<not> HAVE_SINGLE_GRID_WORK_BALANCING s
      then [NoDeviceParallelWarning] else [])"
  by (simp add: get_reasonable_array_context_class_def logger_info_def issued_def
        warn_def Let_def)

text \<open>
  C4.  For each of the five array context classes of the module: when the
  allocator is \<open>None\<close> (passed or omitted), constructing issues the
  no-allocator user warning; when it is not \<open>None\<close>, constructing issues no
  warning; and in both cases constructing completes exactly when the meshmode
  constructor it reaches completes, so the missing allocator raises nothing.
\<close>

theorem no_allocator_warns_and_constructs:
  assumes "c \<noteq> SingleGridWorkBalancingPytatoArrayContext"
  shows "(arg_allocator a = PyNone \<longrightarrow>
            NoAllocatorWarning \<in> set (issued s (snd (construct mm c a s))))
       \<and> (arg_allocator a \<noteq> PyNone \<longrightarrow> issued s (snd (construct mm c a s)) = [])
       \<and> ((\<exists>r. fst (construct mm c a s) = Inr r) =
          (\<exists>at. meshmode_init_reached mm c a = Inr at))"
  using assms by (simp add: construct_issued construct_succeeds_iff)

text \<open>
  The theorem at \<open>MPIPyOpenCLArrayContext\<close> without an allocator and at
  \<open>MPIBasePytatoPyOpenCLArrayContext\<close> with one.
\<close>

theorem no_allocator_warns_and_constructs_witness:
  "NoAllocatorWarning \<in> set (issued (module_import mismatched_env)
      (snd (construct storing_meshmode MPIPyOpenCLArrayContext (example_args PyNone)
              (module_import mismatched_env))))
   \<and> fst (construct storing_meshmode MPIPyOpenCLArrayContext (example_args PyNone)
              (module_import mismatched_env)) = Inr 0
   \<and> issued (module_import mismatched_env)
      (snd (construct storing_meshmode MPIBasePytatoPyOpenCLArrayContext
              (example_args (PyObj 13)) (module_import mismatched_env))) = []"
  using no_allocator_warns_and_constructs
          [of MPIPyOpenCLArrayContext "example_args PyNone"
              "module_import mismatched_env" storing_meshmode]
        no_allocator_warns_and_constructs
          [of MPIBasePytatoPyOpenCLArrayContext "example_args (PyObj 13)"
              "module_import mismatched_env" storing_meshmode]
  by (simp add: example_args_def construct_eq run_init_eq meshmode_init_reached_def
        storing_meshmode_def module_import_def mismatched_env_def warn_def)

text \<open>
  C5, as the spec states it: a loopy/meshmode branch mismatch is warned about
  when an array context is constructed, and at no other time.  It fails: with
  meshmode offering the class and loopy lacking the function, importing the
  module has already issued the warning, and constructing a context then
  completes without issuing it.
\<close>

theorem branch_mismatch_not_at_construction_counterexample:
  "warnings (module_import mismatched_env :: nat state) = [BranchMismatchWarning]
   \<and> fst (construct storing_meshmode PytatoPyOpenCLArrayContext (example_args PyNone)
              (module_import mismatched_env)) = Inr 0
   \<and> BranchMismatchWarning \<notin> set (issued (module_import mismatched_env)
        (snd (construct storing_meshmode PytatoPyOpenCLArrayContext (example_args PyNone)
                (module_import mismatched_env))))"
proof -
  have "warnings (module_import mismatched_env :: nat state) = [BranchMismatchWarning]"
    by (simp add: module_import_def mismatched_env_def warn_def)
  moreover have "fst (construct storing_meshmode PytatoPyOpenCLArrayContext
        (example_args PyNone) (module_import mismatched_env)) = Inr 0"
    by (simp add: example_args_def construct_eq run_init_eq meshmode_init_reached_def
          storing_meshmode_def module_import_def mismatched_env_def warn_def)
  moreover have "BranchMismatchWarning \<notin> set (issued (module_import mismatched_env)
        (snd (construct storing_meshmode PytatoPyOpenCLArrayContext (example_args PyNone)
                (module_import mismatched_env))))"
    by (simp add: construct_issued)
  ultimately show ?thesis by simp
qed

text \<open>
  C5, amended.  The mismatch warning is issued at import of the module, exactly
  when meshmode has the class and loopy lacks the function; import completes
  and leaves the global false unless both are there.  No constructor issues
  the mismatch warning.  The factory function issues the warning that no
  device-parallel context is available when called with \<open>lazy\<close> while the
  global is false, and nothing else.
\<close>

theorem branch_mismatch_warned_at_import:
  "(BranchMismatchWarning \<in> set (warnings (module_import env))) =
     (meshmode_has_single_grid env \<and> \<not> loopy_has_get_idis env)
   \<and> HAVE_SINGLE_GRID_WORK_BALANCING (module_import env) =
     (meshmode_has_single_grid env \<and> loopy_has_get_idis env)
   \<and> BranchMismatchWarning \<notin> set (issued s (snd (construct mm c a s)))
   \<and> issued s (snd (get_reasonable_array_context_class lazy distributed s)) =
     (if lazy \<and> \<not> HAVE_SINGLE_GRID_WORK_BALANCING s
      then [NoDeviceParallelWarning] else [])"
  by (auto simp add: module_import_def warn_def construct_issued get_reasonable_issued Let_def)

text \<open>
  C7.  The constructors of \<open>PyOpenCLArrayContext\<close> and
  \<open>PytatoPyOpenCLArrayContext\<close> pass their arguments unchanged to the meshmode
  constructor and leave the object as that constructor left it (raising what
  it raised): they set no attribute of their own and touch no other object.
\<close>

theorem shims_forward_to_base:
  "fst (PyOpenCLArrayContext_init mm self q a w f s) =
     (case PyOpenCLArrayContextBase_init mm q a w f (attrs self) of
        Inl x \<Rightarrow> Inl (External x) | Inr at \<Rightarrow> Inr (self\<lparr>attrs := at\<rparr>))
   \<and> fst (PytatoPyOpenCLArrayContext_init mm self q a s) =
     (case PytatoPyOpenCLArrayContextBase_init mm q a (attrs self) of
        Inl x \<Rightarrow> Inl (External x) | Inr at \<Rightarrow> Inr (self\<lparr>attrs := at\<rparr>))
   \<and> heap (snd (PyOpenCLArrayContext_init mm self q a w f s)) = heap s
   \<and> heap (snd (PytatoPyOpenCLArrayContext_init mm self q a s)) = heap s"
  by (simp add: PyOpenCL_init_eq Pytato_init_eq warn_def)

subsection \<open>Compiling on a distributed context\<close>

lemma getattr_eq:
  "getattr r name s =
     (if r < length (heap s)
      then (case attrs (heap s ! r) name of
              None \<Rightarrow> (Inl (AttributeError name), s)
            | Some v \<Rightarrow> (Inr v, s))
      else (Inl NoSuchObject, s))"
  by (simp add: getattr_def deref_def run_defs split: option.splits)

lemma bindM_ext_call:
  "bindM (ext_call r) f s = (case r of Inl x \<Rightarrow> (Inl (External x), s) | Inr a \<Rightarrow> f a s)"
  by (simp add: bindM_def ext_call_def split: sum.split)

lemma bindM_getattr:
  "bindM (getattr r name) f s =
     (if r < length (heap s)
      then (case attrs (heap s ! r) name of
              None \<Rightarrow> (Inl (AttributeError name), s)
            | Some v \<Rightarrow> f v s)
      else (Inl NoSuchObject, s))"
  by (simp add: bindM_def getattr_eq split: option.split)

lemma bindM_deref:
  "bindM (deref r) f s =
     (if r < length (heap s) then f (heap s ! r) s else (Inl NoSuchObject, s))"
  by (simp add: bindM_def deref_def)

lemma bindM_returnM: "bindM (returnM a) f s = f a s"
  by (simp add: bindM_def returnM_def)

lemma bindM_raiseM: "bindM (raiseM e) f s = (Inl e, s)"
  by (simp add: bindM_def raiseM_def)

lemma bindM_setattr:
  "r < length (heap s) \<Longrightarrow>
     bindM (setattr r name v) f s = f () (snd (setattr r name v s))"
  by (simp add: bindM_def setattr_def)

lemma bindM_pure:
  "bindM (\<lambda>s. (r, s)) f s = (case r of Inl e \<Rightarrow> (Inl e, s) | Inr a \<Rightarrow> f a s)"
  by (simp add: bindM_def split: sum.split)

lemmas bind_simps = bindM_ext_call bindM_getattr bindM_deref bindM_returnM bindM_raiseM
  bindM_setattr bindM_pure


lemma dag_eq:
  "dag_to_compiled_func pt self d i out t s =
    (case deduplicate_data_wrappers pt d of
       Inl x \<Rightarrow> (Inl (External x), s)
     | Inr d' \<Rightarrow>
    (case find_distributed_partition pt d' of
       Inl x \<Rightarrow> (Inl (External x), s)
     | Inr p \<Rightarrow>
    (if \<not> caller_actx self < length (heap s) then (Inl NoSuchObject, s) else
    (case attrs (heap s ! caller_actx self) ''mpi_base_tag'' of
       None \<Rightarrow> (Inl (AttributeError ''mpi_base_tag''), s)
     | Some tag \<Rightarrow>
    (case attrs (heap s ! caller_actx self) ''mpi_communicator'' of
       None \<Rightarrow> (Inl (AttributeError ''mpi_communicator''), s)
     | Some comm \<Rightarrow>
    (case number_distributed_tags pt comm p tag of
       Inl x \<Rightarrow> (Inl (External x), s)
     | Inr (p', new) \<Rightarrow>
        (if py_eq tag tag
         then ((case compile_parts pt (var_name_to_result p') (map snd (parts p')) [] of
                  Inl e \<Rightarrow> Inl e
                | Inr prgs \<Rightarrow>
                    Inr \<lparr>actx = caller_actx self, distributed_partition = p',
                         part_id_to_prg = prgs, input_id_to_name_in_program = i,
                         output_id_to_name_in_program = out, output_template = t\<rparr>),
               snd (setattr (caller_actx self) ''mpi_base_tag'' new s))
         else (Inl AssertionError, s))))))))"
  by (simp add: dag_to_compiled_func_def bind_simps returnM_def
        split: sum.split prod.split option.split)




lemma heap_length_setattr:
  "length (heap (snd (setattr r n v s))) = length (heap s)"
  by (simp add: setattr_def)

lemma attrs_setattr_other:
  "name \<noteq> n \<Longrightarrow>
     attrs (heap (snd (setattr r n v s)) ! r') name = attrs (heap s ! r') name"
  by (cases "r = r'") (simp_all add: setattr_def)


lemma example_context_eq:
  "example_context =
     \<lparr>HAVE_SINGLE_GRID_WORK_BALANCING = False,
      heap = [\<lparr>cls = MPIBasePytatoPyOpenCLArrayContext,
               attrs = [''queue'' \<mapsto> PyObj 12, ''allocator'' \<mapsto> PyObj 13,
                        ''mpi_communicator'' \<mapsto> PyObj 11,
                        ''mpi_base_tag'' \<mapsto> PyInt 7]\<rparr>],
      warnings = [BranchMismatchWarning], log_records = []\<rparr>"
  by (simp add: example_context_def example_args_def construct_eq run_init_eq
        meshmode_init_reached_def storing_meshmode_def module_import_def
        mismatched_env_def warn_def)




lemma example_compiled_context_eq:
  "example_compiled_context =
     \<lparr>HAVE_SINGLE_GRID_WORK_BALANCING = False,
      heap = [\<lparr>cls = MPIBasePytatoPyOpenCLArrayContext,
               attrs = [''queue'' \<mapsto> PyObj 12, ''allocator'' \<mapsto> PyObj 13,
                        ''mpi_communicator'' \<mapsto> PyObj 11,
                        ''mpi_base_tag'' \<mapsto> PyInt 8]\<rparr>],
      warnings = [BranchMismatchWarning], log_records = []\<rparr>"
  by (simp add: example_compiled_context_def example_context_eq setattr_def)





subsection \<open>Calling a compiled distributed function\<close>

lemma call_eq:
  "DistributedCompiledFunction_call pt cf arg s =
    (if \<not> actx cf < length (heap s) then (Inl NoSuchObject, s) else
    (case args_to_cl_buffers pt (heap s ! actx cf) (input_id_to_name_in_program cf) arg of
       Inl x \<Rightarrow> (Inl (External x), s)
     | Inr inp \<Rightarrow>
    (case attrs (heap s ! actx cf) ''queue'' of
       None \<Rightarrow> (Inl (AttributeError ''queue''), s)
     | Some queue \<Rightarrow>
    (case attrs (heap s ! actx cf) ''mpi_communicator'' of
       None \<Rightarrow> (Inl (AttributeError ''mpi_communicator''), s)
     | Some comm \<Rightarrow>
    (case attrs (heap s ! actx cf) ''allocator'' of
       None \<Rightarrow> (Inl (AttributeError ''allocator''), s)
     | Some allocator \<Rightarrow>
    (case execute_distributed_partition pt (distributed_partition cf)
            (part_id_to_prg cf) queue comm allocator inp of
       Inl x \<Rightarrow> (Inl (External x), s)
     | Inr out_dict \<Rightarrow>
         (rec_keyed_map_array_container pt (to_output_template pt cf s out_dict)
            (output_template cf), s)))))))"
  by (simp add: DistributedCompiledFunction_call_def bind_simps
        split: sum.split option.split)

lemma dag_success:
  "dag_to_compiled_func pt self d i out t s = (Inr cf, s2) \<Longrightarrow>
     actx cf = caller_actx self \<and> caller_actx self < length (heap s)
     \<and> (\<exists>new. s2 = snd (setattr (caller_actx self) ''mpi_base_tag'' new s))"
  by (auto simp add: dag_eq split: sum.splits prod.splits option.splits if_splits)

lemma construct_mpi:
  assumes "is_mpi_class c"
    and "meshmode_init_reached mm c a = Inr at"
  shows "fst (construct mm c a s) = Inr (length (heap s))"
    and "length (heap (snd (construct mm c a s))) = Suc (length (heap s))"
    and "take (length (heap s)) (heap (snd (construct mm c a s))) = heap s"
    and "cls (heap (snd (construct mm c a s)) ! length (heap s)) = c"
    and "attrs (heap (snd (construct mm c a s)) ! length (heap s)) ''mpi_communicator''
           = Some (arg_mpi_communicator a)"
    and "name \<noteq> ''mpi_communicator'' \<Longrightarrow> name \<noteq> ''mpi_base_tag'' \<Longrightarrow>
           attrs (heap (snd (construct mm c a s)) ! length (heap s)) name = at name"
    and "c \<noteq> MPIPyOpenCLArrayContext \<Longrightarrow>
           attrs (heap (snd (construct mm c a s)) ! length (heap s)) ''mpi_base_tag''
             = Some (arg_mpi_base_tag a)"
  using assms by (cases c; simp add: construct_eq run_init_eq)+

lemma structure_of_fun: "structure_of = map_container id (\<lambda>_. ())"
  by (rule ext) (simp add: structure_of_def)

lemma structure_of_simps:
  "structure_of (Leaf a) = Leaf ()"
  "structure_of (Container es) = Container (map (map_prod id structure_of) es)"
  by (simp_all add: structure_of_fun)

lemma leaf_at_Leaf: "leaf_at (Leaf a) ks = Some b \<longleftrightarrow> ks = [] \<and> b = a"
  by (cases ks) auto

lemma leaf_at_Container:
  "leaf_at (Container es) ks = Some b \<longleftrightarrow>
     (\<exists>k ks'. ks = k # ks' \<and> leaf_at_entries es k ks' = Some b)"
  by (cases ks) auto

lemma keyed_map_props:
  "keyed_map f pre c = Inr r \<Longrightarrow>
     structure_of r = structure_of c
     \<and> (\<forall>ks a. leaf_at c ks = Some a \<longrightarrow>
           (\<exists>v. f (pre @ ks) a = Inr v \<and> leaf_at r ks = Some v))"
  "keyed_map_entries f pre es = Inr rs \<Longrightarrow>
     map (map_prod id structure_of) rs = map (map_prod id structure_of) es
     \<and> (\<forall>k ks a. leaf_at_entries es k ks = Some a \<longrightarrow>
           (\<exists>v. f (pre @ k # ks) a = Inr v \<and> leaf_at_entries rs k ks = Some v))"
proof (induction f pre c and f pre es arbitrary: r and rs
        rule: keyed_map_keyed_map_entries.induct)
  case (1 f keys a)
  then show ?case
    by (auto simp add: structure_of_simps leaf_at_Leaf split: sum.splits)
next
  case (2 f keys entries)
  then show ?case
    by (auto simp add: structure_of_simps leaf_at_Container id_def split: sum.splits)
next
  case (3 f keys)
  then show ?case by simp
next
  case (4 f keys k c rest)
  from "4.prems" obtain c' rest' where
    c': "keyed_map f (keys @ [k]) c = Inr c'" and
    rest': "keyed_map_entries f keys rest = Inr rest'" and
    rs: "rs = (k, c') # rest'"
    by (auto split: sum.splits)
  note ihc = "4.IH"(1) [OF c']
  note ihr = "4.IH"(2) [OF c' rest']
  show ?case using ihc ihr by (auto simp add: rs id_def)
qed

lemma example_call:
  "DistributedCompiledFunction_call example_pytato example_compiled 7
     example_compiled_context
   = (Inr (Container [(''u'', Leaf 107), (''v'', Container [(''w'', Leaf 108)])]),
      example_compiled_context)"
  by (simp add: call_eq example_compiled_context_eq example_compiled_def
        example_pytato_def example_template_def example_output_names_def
        to_output_template_def deref_def)

text \<open>
  C6.  Constructing an MPI-based context whose meshmode constructor keeps the
  queue and the allocator it is given: the construction completes, and the
  new object's \<open>mpi_communicator\<close>, \<open>queue\<close> and \<open>allocator\<close> are the values
  passed in.  After a compilation on that context, calling the compiled
  function passes exactly these three values to
  \<open>execute_distributed_partition\<close>.  The three are opaque values throughout:
  the module has no operation that makes or alters one.
\<close>

theorem mpi_objects_stored_and_forwarded:
  assumes "is_mpi_class c"
    and "meshmode_init_reached mm c a = Inr at"
    and "at ''queue'' = Some (arg_queue a)"
    and "at ''allocator'' = Some (arg_allocator a)"
  shows "fst (construct mm c a s) = Inr (length (heap s))
       \<and> fst (getattr (length (heap s)) ''mpi_communicator'' (snd (construct mm c a s)))
           = Inr (arg_mpi_communicator a)
       \<and> fst (getattr (length (heap s)) ''queue'' (snd (construct mm c a s)))
           = Inr (arg_queue a)
       \<and> fst (getattr (length (heap s)) ''allocator'' (snd (construct mm c a s)))
           = Inr (arg_allocator a)
       \<and> (dag_to_compiled_func pt
             (MPIPytatoArrayContextBase_compile (length (heap s)) f) d i out t
             (snd (construct mm c a s)) = (Inr cf, s2) \<longrightarrow>
           DistributedCompiledFunction_call pt cf arg s2 =
             (case args_to_cl_buffers pt (heap s2 ! length (heap s))
                     (input_id_to_name_in_program cf) arg of
                Inl x \<Rightarrow> (Inl (External x), s2)
              | Inr inp \<Rightarrow>
                  (case execute_distributed_partition pt (distributed_partition cf)
                          (part_id_to_prg cf) (arg_queue a) (arg_mpi_communicator a)
                          (arg_allocator a) inp of
                     Inl x \<Rightarrow> (Inl (External x), s2)
                   | Inr out_dict \<Rightarrow>
                       (rec_keyed_map_array_container pt
                          (to_output_template pt cf s2 out_dict) (output_template cf),
                        s2))))"
proof -
  let ?r = "length (heap s)"
  let ?s1 = "snd (construct mm c a s)"
  note C = construct_mpi [OF assms(1) assms(2), where s = s]
  have q: "attrs (heap ?s1 ! ?r) ''queue'' = Some (arg_queue a)"
    using C(6) [of "''queue''"] assms(3) by simp
  have al: "attrs (heap ?s1 ! ?r) ''allocator'' = Some (arg_allocator a)"
    using C(6) [of "''allocator''"] assms(4) by simp
  have len: "?r < length (heap ?s1)" using C(2) by simp
  have stored: "fst (getattr ?r ''mpi_communicator'' ?s1) = Inr (arg_mpi_communicator a)"
    "fst (getattr ?r ''queue'' ?s1) = Inr (arg_queue a)"
    "fst (getattr ?r ''allocator'' ?s1) = Inr (arg_allocator a)"
    using len q al C(5) by (simp_all add: getattr_eq)
  have fwd: "DistributedCompiledFunction_call pt cf arg s2 =
             (case args_to_cl_buffers pt (heap s2 ! ?r)
                     (input_id_to_name_in_program cf) arg of
                Inl x \<Rightarrow> (Inl (External x), s2)
              | Inr inp \<Rightarrow>
                  (case execute_distributed_partition pt (distributed_partition cf)
                          (part_id_to_prg cf) (arg_queue a) (arg_mpi_communicator a)
                          (arg_allocator a) inp of
                     Inl x \<Rightarrow> (Inl (External x), s2)
                   | Inr out_dict \<Rightarrow>
                       (rec_keyed_map_array_container pt
                          (to_output_template pt cf s2 out_dict) (output_template cf),
                        s2)))"
    if h: "dag_to_compiled_func pt (MPIPytatoArrayContextBase_compile ?r f) d i out t ?s1
             = (Inr cf, s2)"
  proof -
    from dag_success [OF h] obtain new where
      a: "actx cf = ?r" and s2: "s2 = snd (setattr ?r ''mpi_base_tag'' new ?s1)"
      by (auto simp add: MPIPytatoArrayContextBase_compile_def)
    have "attrs (heap s2 ! ?r) ''queue'' = Some (arg_queue a)"
      "attrs (heap s2 ! ?r) ''allocator'' = Some (arg_allocator a)"
      "attrs (heap s2 ! ?r) ''mpi_communicator'' = Some (arg_mpi_communicator a)"
      "?r < length (heap s2)"
      using q al C(5) len
      by (simp_all add: s2 attrs_setattr_other heap_length_setattr)
    then show ?thesis by (simp add: call_eq a split: sum.split)
  qed
  show ?thesis using C(1) stored fwd by blast
qed

text \<open>
  The theorem on the example context; the stand-in for
  \<open>execute_distributed_partition\<close> raises unless it is given queue 12,
  communicator 11 and allocator 13.
\<close>

theorem mpi_objects_stored_and_forwarded_witness:
  "fst (construct storing_meshmode MPIBasePytatoPyOpenCLArrayContext
          (example_args (PyObj 13)) (module_import mismatched_env)) = Inr 0
   \<and> fst (getattr 0 ''mpi_communicator'' example_context) = Inr (PyObj 11)
   \<and> fst (getattr 0 ''queue'' example_context) = Inr (PyObj 12)
   \<and> fst (getattr 0 ''allocator'' example_context) = Inr (PyObj 13)
   \<and> DistributedCompiledFunction_call example_pytato example_compiled 7
        example_compiled_context
      = (Inr (Container [(''u'', Leaf 107), (''v'', Container [(''w'', Leaf 108)])]),
         example_compiled_context)"
proof -
  let ?a = "example_args (PyObj 13)"
  let ?at = "[''queue'' \<mapsto> PyObj 12, ''allocator'' \<mapsto> PyObj (13::nat)]"
  let ?s = "module_import mismatched_env :: nat state"
  have h1: "is_mpi_class MPIBasePytatoPyOpenCLArrayContext" by simp
  have h2: "meshmode_init_reached storing_meshmode MPIBasePytatoPyOpenCLArrayContext ?a
              = Inr ?at"
    by (simp add: meshmode_init_reached_def storing_meshmode_def example_args_def)
  have h3: "?at ''queue'' = Some (arg_queue ?a)"
    by (simp add: example_args_def)
  have h4: "?at ''allocator'' = Some (arg_allocator ?a)"
    by (simp add: example_args_def)
  have l: "length (heap ?s) = 0"
    by (simp add: module_import_def mismatched_env_def warn_def)
  note T = mpi_objects_stored_and_forwarded
             [OF h1 h2 h3 h4, of ?s example_pytato 5 40 41 example_output_names
                example_template example_compiled example_compiled_context 7]
  have ctx: "snd (construct storing_meshmode MPIBasePytatoPyOpenCLArrayContext ?a ?s)
               = example_context"
    by (simp only: example_context_def)
  have args: "arg_mpi_communicator ?a = PyObj 11" "arg_queue ?a = PyObj 12"
    "arg_allocator ?a = PyObj 13"
    by (simp_all add: example_args_def)
  from T [unfolded l ctx args] show ?thesis
    by (simp add: example_call)
qed

text \<open>
  C10.  With arraycontext's keyed traversal behaving as documented, a call of a
  compiled function that returns gives a container with the structure and
  keys of \<open>output_template\<close>; the leaf under each key tuple is \<open>thaw\<close> of the
  entry of the dictionary \<open>execute_distributed_partition\<close> returned, under the
  name \<open>output_id_to_name_in_program\<close> gives the tuple.  The call leaves the
  state as it was; the compiled function itself is an immutable record, as a
  frozen dataclass is.
\<close>

theorem call_fills_output_template:
  assumes "rec_keyed_map_array_container pt = (\<lambda>f. keyed_map f [])"
    and "DistributedCompiledFunction_call pt self arg s = (Inr r, s')"
  shows "s' = s
       \<and> structure_of r = structure_of (output_template self)
       \<and> (\<exists>inp queue comm allocator out_dict.
            args_to_cl_buffers pt (heap s ! actx self)
              (input_id_to_name_in_program self) arg = Inr inp
          \<and> fst (getattr (actx self) ''queue'' s) = Inr queue
          \<and> fst (getattr (actx self) ''mpi_communicator'' s) = Inr comm
          \<and> fst (getattr (actx self) ''allocator'' s) = Inr allocator
          \<and> execute_distributed_partition pt (distributed_partition self)
              (part_id_to_prg self) queue comm allocator inp = Inr out_dict
          \<and> (\<forall>keys a. leaf_at (output_template self) keys = Some a \<longrightarrow>
                (\<exists>name ary v.
                   output_id_to_name_in_program self keys = Some name
                 \<and> out_dict name = Some ary
                 \<and> thaw pt (heap s ! actx self) ary = Inr v
                 \<and> leaf_at r keys = Some v)))"
proof -
  note h = assms(2)
  have len: "actx self < length (heap s)"
    using h by (simp add: call_eq split: if_splits)
  obtain inp where
    inp: "args_to_cl_buffers pt (heap s ! actx self)
            (input_id_to_name_in_program self) arg = Inr inp"
    using h len
    by (cases "args_to_cl_buffers pt (heap s ! actx self)
                 (input_id_to_name_in_program self) arg")
       (simp_all add: call_eq)
  obtain queue where q: "attrs (heap s ! actx self) ''queue'' = Some queue"
    using h len inp
    by (cases "attrs (heap s ! actx self) ''queue''") (simp_all add: call_eq)
  obtain comm where c: "attrs (heap s ! actx self) ''mpi_communicator'' = Some comm"
    using h len inp q
    by (cases "attrs (heap s ! actx self) ''mpi_communicator''")
       (simp_all add: call_eq)
  obtain allocator where al: "attrs (heap s ! actx self) ''allocator'' = Some allocator"
    using h len inp q c
    by (cases "attrs (heap s ! actx self) ''allocator''") (simp_all add: call_eq)
  obtain out_dict where
    ex: "execute_distributed_partition pt (distributed_partition self)
           (part_id_to_prg self) queue comm allocator inp = Inr out_dict"
    using h len inp q c al
    by (cases "execute_distributed_partition pt (distributed_partition self)
                 (part_id_to_prg self) queue comm allocator inp")
       (simp_all add: call_eq)
  have res: "rec_keyed_map_array_container pt (to_output_template pt self s out_dict)
            (output_template self) = Inr r" and st: "s' = s"
    using h len inp q c al ex by (auto simp add: call_eq)
  from res assms(1) have km:
    "keyed_map (to_output_template pt self s out_dict) [] (output_template self) = Inr r"
    by simp
  note P = keyed_map_props(1) [OF km]
  have leaves: "\<exists>name ary v.
                   output_id_to_name_in_program self keys = Some name
                 \<and> out_dict name = Some ary
                 \<and> thaw pt (heap s ! actx self) ary = Inr v
                 \<and> leaf_at r keys = Some v"
    if "leaf_at (output_template self) keys = Some a" for keys a
  proof -
    from P that obtain v where
      v: "to_output_template pt self s out_dict keys a = Inr v" and
      l: "leaf_at r keys = Some v"
      by auto
    from v len l show ?thesis
      by (auto simp add: to_output_template_def deref_def
            split: sum.splits option.splits)
  qed
  have "fst (getattr (actx self) ''queue'' s) = Inr queue"
    "fst (getattr (actx self) ''mpi_communicator'' s) = Inr comm"
    "fst (getattr (actx self) ''allocator'' s) = Inr allocator"
    using len q c al by (simp_all add: getattr_eq)
  with st P inp ex leaves show ?thesis by blast
qed

text \<open>The theorem on the example: input 7 gives leaves 107 and 108.\<close>

theorem call_fills_output_template_witness:
  "fst (DistributedCompiledFunction_call example_pytato example_compiled 7
          example_compiled_context)
     = Inr (Container [(''u'', Leaf 107), (''v'', Container [(''w'', Leaf 108)])])
   \<and> snd (DistributedCompiledFunction_call example_pytato example_compiled 7
          example_compiled_context) = example_compiled_context
   \<and> structure_of (Container [(''u'', Leaf 107), (''v'', Container [(''w'', Leaf (108::nat))])])
     = structure_of (output_template example_compiled)
   \<and> leaf_at (output_template example_compiled) [''v'', ''w''] = Some 0
   \<and> leaf_at (Container [(''u'', Leaf 107), (''v'', Container [(''w'', Leaf (108::nat))])])
        [''v'', ''w''] = Some 108"
proof -
  have h: "rec_keyed_map_array_container example_pytato = (\<lambda>f. keyed_map f [])"
    by (simp add: example_pytato_def)
  note T = call_fills_output_template [OF h example_call]
  have "leaf_at (output_template example_compiled) [''v'', ''w''] = Some 0"
    "leaf_at (Container [(''u'', Leaf 107), (''v'', Container [(''w'', Leaf (108::nat))])])
        [''v'', ''w''] = Some 108"
    by (simp_all add: example_compiled_def example_template_def)
  with T show ?thesis by (simp add: example_call)
qed

subsection \<open>Cloning\<close>

lemma clone_pytato_eq:
  assumes "r < length (heap s)"
    and "attrs (heap s ! r) ''mpi_communicator'' = Some comm"
    and "attrs (heap s ! r) ''queue'' = Some queue"
    and "attrs (heap s ! r) ''mpi_base_tag'' = Some tag"
    and "attrs (heap s ! r) ''allocator'' = Some allocator"
  shows "MPIPytatoArrayContextBase_clone mm r s =
           construct mm (cls (heap s ! r))
             \<lparr>arg_mpi_communicator = comm, arg_queue = queue,
              arg_allocator = allocator, arg_mpi_base_tag = tag,
              arg_wait_event_queue_length = PyNone,
              arg_force_device_scalars = PyBool False\<rparr> s"
  using assms by (simp add: MPIPytatoArrayContextBase_clone_def bind_simps)

lemma clone_eager_eq:
  assumes "r < length (heap s)"
    and "attrs (heap s ! r) ''mpi_communicator'' = Some comm"
    and "attrs (heap s ! r) ''queue'' = Some queue"
    and "attrs (heap s ! r) ''allocator'' = Some allocator"
    and "attrs (heap s ! r) ''_wait_event_queue_length'' = Some w"
    and "attrs (heap s ! r) ''_force_device_scalars'' = Some f"
  shows "MPIPyOpenCLArrayContext_clone mm r s =
           construct mm (cls (heap s ! r))
             \<lparr>arg_mpi_communicator = comm, arg_queue = queue,
              arg_allocator = allocator, arg_mpi_base_tag = PyNone,
              arg_wait_event_queue_length = w,
              arg_force_device_scalars = f\<rparr> s"
  using assms by (simp add: MPIPyOpenCLArrayContext_clone_def bind_simps)

lemma example_eager_context_eq:
  "example_eager_context =
     \<lparr>HAVE_SINGLE_GRID_WORK_BALANCING = False,
      heap = [\<lparr>cls = MPIPyOpenCLArrayContext,
               attrs = [''queue'' \<mapsto> PyObj 12, ''allocator'' \<mapsto> PyNone,
                        ''_wait_event_queue_length'' \<mapsto> PyInt 10,
                        ''_force_device_scalars'' \<mapsto> PyBool False,
                        ''mpi_communicator'' \<mapsto> PyObj 11]\<rparr>],
      warnings = [BranchMismatchWarning, NoAllocatorWarning], log_records = []\<rparr>"
  by (simp add: example_eager_context_def example_args_def construct_eq run_init_eq
        meshmode_init_reached_def storing_meshmode_def module_import_def
        mismatched_env_def warn_def)

text \<open>
  C9.  \<open>clone\<close> of an MPI-based context whose meshmode constructor keeps what it
  is given returns a reference to a new object of the same class with the
  original's communicator, queue and allocator, and its \<open>mpi_base_tag\<close> (pytato
  variant) or \<open>_wait_event_queue_length\<close> and \<open>_force_device_scalars\<close> (eager
  variant); every object that was in the heap, the original among them, is
  unchanged.
\<close>

theorem clone_is_fresh_copy:
  assumes "r < length (heap s)"
    and "attrs (heap s ! r) ''mpi_communicator'' = Some comm"
    and "attrs (heap s ! r) ''queue'' = Some queue"
    and "attrs (heap s ! r) ''allocator'' = Some allocator"
  shows "((cls (heap s ! r) = MPIBasePytatoPyOpenCLArrayContext
           \<or> cls (heap s ! r) = MPISingleGridWorkBalancingPytatoArrayContext)
          \<and> attrs (heap s ! r) ''mpi_base_tag'' = Some tag
          \<and> meshmode_init_reached mm (cls (heap s ! r))
               \<lparr>arg_mpi_communicator = comm, arg_queue = queue,
                arg_allocator = allocator, arg_mpi_base_tag = tag,
                arg_wait_event_queue_length = PyNone,
                arg_force_device_scalars = PyBool False\<rparr> = Inr at
          \<and> at ''queue'' = Some queue \<and> at ''allocator'' = Some allocator
          \<longrightarrow> is_fresh_copy s r (MPIPytatoArrayContextBase_clone mm r s)
                [''mpi_communicator'', ''queue'', ''allocator'', ''mpi_base_tag''])
       \<and> (cls (heap s ! r) = MPIPyOpenCLArrayContext
          \<and> attrs (heap s ! r) ''_wait_event_queue_length'' = Some w
          \<and> attrs (heap s ! r) ''_force_device_scalars'' = Some f
          \<and> meshmode_init_reached mm MPIPyOpenCLArrayContext
               \<lparr>arg_mpi_communicator = comm, arg_queue = queue,
                arg_allocator = allocator, arg_mpi_base_tag = PyNone,
                arg_wait_event_queue_length = w,
                arg_force_device_scalars = f\<rparr> = Inr at'
          \<and> at' ''queue'' = Some queue \<and> at' ''allocator'' = Some allocator
          \<and> at' ''_wait_event_queue_length'' = Some w
          \<and> at' ''_force_device_scalars'' = Some f
          \<longrightarrow> is_fresh_copy s r (MPIPyOpenCLArrayContext_clone mm r s)
                [''mpi_communicator'', ''queue'', ''allocator'',
                 ''_wait_event_queue_length'', ''_force_device_scalars''])"
proof (intro conjI impI)
  assume h: "(cls (heap s ! r) = MPIBasePytatoPyOpenCLArrayContext
           \<or> cls (heap s ! r) = MPISingleGridWorkBalancingPytatoArrayContext)
          \<and> attrs (heap s ! r) ''mpi_base_tag'' = Some tag
          \<and> meshmode_init_reached mm (cls (heap s ! r))
               \<lparr>arg_mpi_communicator = comm, arg_queue = queue,
                arg_allocator = allocator, arg_mpi_base_tag = tag,
                arg_wait_event_queue_length = PyNone,
                arg_force_device_scalars = PyBool False\<rparr> = Inr at
          \<and> at ''queue'' = Some queue \<and> at ''allocator'' = Some allocator"
  let ?a = "\<lparr>arg_mpi_communicator = comm, arg_queue = queue,
                arg_allocator = allocator, arg_mpi_base_tag = tag,
                arg_wait_event_queue_length = PyNone,
                arg_force_device_scalars = PyBool False\<rparr>"
  from h have m: "is_mpi_class (cls (heap s ! r))"
    and n: "cls (heap s ! r) \<noteq> MPIPyOpenCLArrayContext" by auto
  from h have i: "meshmode_init_reached mm (cls (heap s ! r)) ?a = Inr at" by simp
  note C = construct_mpi [OF m i, where s = s]
  have e: "MPIPytatoArrayContextBase_clone mm r s = construct mm (cls (heap s ! r)) ?a s"
    using clone_pytato_eq [OF assms(1) assms(2) assms(3) _ assms(4)] h by simp
  show "is_fresh_copy s r (MPIPytatoArrayContextBase_clone mm r s)
          [''mpi_communicator'', ''queue'', ''allocator'', ''mpi_base_tag'']"
    using C(1-5) C(6) [of "''queue''"] C(6) [of "''allocator''"] C(7) [OF n] h assms
    by (simp add: is_fresh_copy_def e)
next
  assume h: "cls (heap s ! r) = MPIPyOpenCLArrayContext
          \<and> attrs (heap s ! r) ''_wait_event_queue_length'' = Some w
          \<and> attrs (heap s ! r) ''_force_device_scalars'' = Some f
          \<and> meshmode_init_reached mm MPIPyOpenCLArrayContext
               \<lparr>arg_mpi_communicator = comm, arg_queue = queue,
                arg_allocator = allocator, arg_mpi_base_tag = PyNone,
                arg_wait_event_queue_length = w,
                arg_force_device_scalars = f\<rparr> = Inr at'
          \<and> at' ''queue'' = Some queue \<and> at' ''allocator'' = Some allocator
          \<and> at' ''_wait_event_queue_length'' = Some w
          \<and> at' ''_force_device_scalars'' = Some f"
  let ?a = "\<lparr>arg_mpi_communicator = comm, arg_queue = queue,
                arg_allocator = allocator, arg_mpi_base_tag = PyNone,
                arg_wait_event_queue_length = w,
                arg_force_device_scalars = f\<rparr>"
  from h have c: "cls (heap s ! r) = MPIPyOpenCLArrayContext" by simp
  have m: "is_mpi_class MPIPyOpenCLArrayContext" by simp
  from h have i: "meshmode_init_reached mm MPIPyOpenCLArrayContext ?a = Inr at'" by simp
  note C = construct_mpi [OF m i, where s = s]
  have e: "MPIPyOpenCLArrayContext_clone mm r s = construct mm MPIPyOpenCLArrayContext ?a s"
    using clone_eager_eq [OF assms(1) assms(2) assms(3) assms(4)] h by simp
  show "is_fresh_copy s r (MPIPyOpenCLArrayContext_clone mm r s)
          [''mpi_communicator'', ''queue'', ''allocator'',
           ''_wait_event_queue_length'', ''_force_device_scalars'']"
    using C(1-5) C(6) [of "''queue''"] C(6) [of "''allocator''"]
      C(6) [of "''_wait_event_queue_length''"] C(6) [of "''_force_device_scalars''"]
      h assms
    by (simp add: is_fresh_copy_def e c)
qed

text \<open>The theorem on the example pytato context and the example eager context.\<close>

theorem clone_is_fresh_copy_witness:
  "is_fresh_copy example_context 0
     (MPIPytatoArrayContextBase_clone storing_meshmode 0 example_context)
     [''mpi_communicator'', ''queue'', ''allocator'', ''mpi_base_tag'']
   \<and> is_fresh_copy example_eager_context 0
     (MPIPyOpenCLArrayContext_clone storing_meshmode 0 example_eager_context)
     [''mpi_communicator'', ''queue'', ''allocator'',
      ''_wait_event_queue_length'', ''_force_device_scalars'']
   \<and> attrs (heap example_context ! 0) ''mpi_base_tag'' = Some (PyInt 7)
   \<and> attrs (heap example_eager_context ! 0) ''_wait_event_queue_length''
       = Some (PyInt 10)"
proof -
  have p: "0 < length (heap example_context)"
    "attrs (heap example_context ! 0) ''mpi_communicator'' = Some (PyObj 11)"
    "attrs (heap example_context ! 0) ''queue'' = Some (PyObj 12)"
    "attrs (heap example_context ! 0) ''allocator'' = Some (PyObj 13)"
    by (simp_all add: example_context_eq)
  have p': "cls (heap example_context ! 0) = MPIBasePytatoPyOpenCLArrayContext"
    "attrs (heap example_context ! 0) ''mpi_base_tag'' = Some (PyInt 7)"
    "meshmode_init_reached storing_meshmode (cls (heap example_context ! 0))
       \<lparr>arg_mpi_communicator = PyObj 11, arg_queue = PyObj 12,
        arg_allocator = PyObj 13, arg_mpi_base_tag = PyInt 7,
        arg_wait_event_queue_length = PyNone,
        arg_force_device_scalars = PyBool False\<rparr>
      = Inr [''queue'' \<mapsto> PyObj 12, ''allocator'' \<mapsto> PyObj 13]"
    by (simp_all add: example_context_eq meshmode_init_reached_def storing_meshmode_def)
  have e: "0 < length (heap example_eager_context)"
    "attrs (heap example_eager_context ! 0) ''mpi_communicator'' = Some (PyObj 11)"
    "attrs (heap example_eager_context ! 0) ''queue'' = Some (PyObj 12)"
    "attrs (heap example_eager_context ! 0) ''allocator'' = Some PyNone"
    by (simp_all add: example_eager_context_eq)
  have e': "cls (heap example_eager_context ! 0) = MPIPyOpenCLArrayContext"
    "attrs (heap example_eager_context ! 0) ''_wait_event_queue_length''
       = Some (PyInt 10)"
    "attrs (heap example_eager_context ! 0) ''_force_device_scalars''
       = Some (PyBool False)"
    "meshmode_init_reached storing_meshmode MPIPyOpenCLArrayContext
       \<lparr>arg_mpi_communicator = PyObj 11, arg_queue = PyObj 12,
        arg_allocator = PyNone, arg_mpi_base_tag = PyNone,
        arg_wait_event_queue_length = PyInt 10,
        arg_force_device_scalars = PyBool False\<rparr>
      = Inr [''queue'' \<mapsto> PyObj 12, ''allocator'' \<mapsto> PyNone,
             ''_wait_event_queue_length'' \<mapsto> PyInt 10,
             ''_force_device_scalars'' \<mapsto> PyBool False]"
    by (simp_all add: example_eager_context_eq meshmode_init_reached_def
          storing_meshmode_def)
  have "is_fresh_copy example_context 0
     (MPIPytatoArrayContextBase_clone storing_meshmode 0 example_context)
     [''mpi_communicator'', ''queue'', ''allocator'', ''mpi_base_tag'']"
    using clone_is_fresh_copy [OF p, THEN conjunct1, rule_format,
            of "PyInt 7" storing_meshmode
               "[''queue'' \<mapsto> PyObj 12, ''allocator'' \<mapsto> PyObj 13]"]
      p'
    by simp
  moreover have "is_fresh_copy example_eager_context 0
     (MPIPyOpenCLArrayContext_clone storing_meshmode 0 example_eager_context)
     [''mpi_communicator'', ''queue'', ''allocator'',
      ''_wait_event_queue_length'', ''_force_device_scalars'']"
    using clone_is_fresh_copy [OF e, THEN conjunct2, rule_format,
            of "PyInt 10" "PyBool False" storing_meshmode
               "[''queue'' \<mapsto> PyObj 12, ''allocator'' \<mapsto> PyNone,
                 ''_wait_event_queue_length'' \<mapsto> PyInt 10,
                 ''_force_device_scalars'' \<mapsto> PyBool False]"]
      e'
    by simp
  ultimately show ?thesis using p'(2) e'(2) by simp
qed

end
